theory Spec2Isabelle
  imports Complex_Main "HOL-Library.AList" "HOL-Library.Extended_Nat"
begin

section \<open>The AI saga of battle-city (src/app/sagas/AISaga.ts)\<close>

text \<open>
  The file holds three generators: \<^verbatim>\<open>handleCommands\<close> (the command interpreter of one AI
  player, with the closures it hands to the direction and fire controllers),
  \<^verbatim>\<open>AIWorkerSaga\<close> (one worker and its two channels) and \<^verbatim>\<open>AIMasterSaga\<close> (the
  supervisor that starts and cancels worker sagas).

  A JavaScript number is the \<open>real\<close> that the double denotes. On doubles the comparisons
  and \<^verbatim>\<open>Math.abs\<close> are exact, so they are the ones of \<open>real\<close>; subtraction rounds, so
  the double subtraction is a parameter \<open>fsub\<close> of every operation that subtracts, of
  which nothing is assumed: \<open>fsub a b\<close> is \<open>None\<close> when the result is not a finite number
  (an overflow, or the NaN that an uninitialised \<^verbatim>\<open>startPos\<close> gives). Identifiers and counts
  are \<open>nat\<close>. The closure variables of \<^verbatim>\<open>handleCommands\<close> are a record that every operation
  takes and returns; \<^verbatim>\<open>noteChannel.put\<close> appends to a list of emitted notes; a
  \<^verbatim>\<open>throw\<close> is the \<open>Inl\<close> of a sum. Every \<^verbatim>\<open>yield select\<close> is answered from a snapshot
  of the redux store that the operation receives as an argument.
\<close>

subsection \<open>Data\<close>

datatype Direction = Up | Down | Left | Right

datatype Side = Human | AI

datatype TankLevel = Basic | Fast | Power | Armor

text \<open>
  \<^verbatim>\<open>TankRecord\<close> (types, not part of src): the fields this file reads or sets. The
  coordinates \<^verbatim>\<open>x\<close> and \<^verbatim>\<open>y\<close> are named \<open>tank_x\<close> and \<open>tank_y\<close>.
\<close>

record TankRecord =
  tankId :: nat
  tank_x :: real
  tank_y :: real
  direction :: Direction
  side :: Side
  level :: TankLevel
  hp :: nat
  bulletLimit :: int

record BulletRecord =
  bulletId :: nat
  b_tankId :: nat

text \<open>\<^verbatim>\<open>PlayerRecord({ playerName, lives, side })\<close>; \<^verbatim>\<open>lives\<close> may be \<^verbatim>\<open>Infinity\<close>.\<close>

record PlayerRecord =
  playerName :: string
  lives :: enat
  p_side :: Side

text \<open>
  The redux store, as far as this file selects from it. \<open>playerTank\<close> stands for
  the result of \<^verbatim>\<open>selectors.playerTank\<close> (\<^verbatim>\<open>utils/selectors\<close>, not part of src) on this
  store: \<open>None\<close> is the \<^verbatim>\<open>null\<close> it answers for a player without a tank. The immutable maps
  \<^verbatim>\<open>tanks\<close> and \<^verbatim>\<open>bullets\<close> are the lists of their values; \<^verbatim>\<open>cooldowns.get\<close> answers
  \<^verbatim>\<open>undefined\<close> (\<open>None\<close>) for a missing key. The type of the map snapshot is a parameter.
\<close>

record 'm State =
  playerTank :: "string \<Rightarrow> TankRecord option"
  tanks :: "TankRecord list"
  bullets :: "BulletRecord list"
  cooldowns :: "nat \<Rightarrow> real option"
  stageMap :: 'm
  remainingEnemies :: "TankLevel list"

text \<open>
  A command as it arrives from the worker (\<^verbatim>\<open>event.data\<close>): the tag \<^verbatim>\<open>type\<close> and the
  fields of the four kinds; the handler reads only the fields of the kind it finds.
\<close>

record AICommand =
  c_type :: string
  c_forwardLength :: real
  c_direction :: Direction
  c_query :: string

datatype 'm QueryResult =
    MyTankInfo "TankRecord option"
  | MapInfo 'm
  | TanksInfo "TankRecord list"
  | MyFireInfo (bulletCount: nat) (canFire: bool) (cooldown: "real option") (fi_bulletLimit: int)

datatype 'm Note = BulletComplete | Reach | QueryResult "'m QueryResult"

text \<open>
  What \<^verbatim>\<open>getAIInput\<close> returns besides \<^verbatim>\<open>null\<close>. \<open>maxDistance\<close> is \<open>None\<close> when the
  subtraction gives no finite number (NaN or an infinity).
\<close>

datatype Input = TurnInput Direction | ForwardInput (maxDistance: "real option")

text \<open>
  \<open>ProtocolError\<close> is the \<^verbatim>\<open>throw new Error()\<close> of line 98; \<open>TypeError\<close> is what reading a
  property of \<^verbatim>\<open>null\<close> or \<^verbatim>\<open>undefined\<close> throws.
\<close>

datatype error = ProtocolError | TypeError

text \<open>
  The closure variables of \<^verbatim>\<open>handleCommands\<close> (lines 13 to 16). \<^verbatim>\<open>startPos\<close> is declared
  without a value: \<open>None\<close> is \<^verbatim>\<open>undefined\<close>.
\<close>

record interp =
  fire :: bool
  nextDirection :: "Direction option"
  forwardLength :: real
  startPos :: "real option"

definition initial :: interp where
  "initial = \<lparr>fire = False, nextDirection = None, forwardLength = 0, startPos = None\<rparr>"

subsection \<open>The command interpreter\<close>

datatype Axis = X | Y

text \<open>
  Modelled from the spec: \<^verbatim>\<open>getDirectionInfo\<close> of \<^verbatim>\<open>utils/common\<close> is not part of src.
  The spec speaks of the "position along the actor's facing axis": the vertical axis for
  up and down, the horizontal one for left and right.
\<close>

fun getDirectionInfo :: "Direction \<Rightarrow> Axis" where
  "getDirectionInfo Up = Y"
| "getDirectionInfo Down = Y"
| "getDirectionInfo Left = X"
| "getDirectionInfo Right = X"

text \<open>\<^verbatim>\<open>tank.get(xy)\<close>\<close>

fun tank_get :: "Axis \<Rightarrow> TankRecord \<Rightarrow> real" where
  "tank_get X tank = tank_x tank"
| "tank_get Y tank = tank_y tank"

text \<open>\<^verbatim>\<open>cooldown <= 0\<close>, which is false for \<^verbatim>\<open>undefined\<close>.\<close>

fun le_zero :: "real option \<Rightarrow> bool" where
  "le_zero None = False"
| "le_zero (Some c) = (c \<le> 0)"

text \<open>
  One turn of the loop of lines 40 to 100: the command taken from the channel is handled
  against the current store. The result is the new closure state and the notes put on the
  note channel, or the error thrown. For \<^verbatim>\<open>my-fire-info\<close> without a tank,
  \<^verbatim>\<open>console.assert\<close> only reports, and \<^verbatim>\<open>tank.tankId\<close> then throws.
\<close>

definition handleCommand ::
  "string \<Rightarrow> 'm State \<Rightarrow> interp \<Rightarrow> AICommand \<Rightarrow> error + (interp \<times> 'm Note list)" where
  "handleCommand name state s command =
    (if c_type command = ''forward'' then
       (case playerTank state name of
          None \<Rightarrow> Inr (s, [])
        | Some tank \<Rightarrow>
            Inr (s\<lparr>startPos := Some (tank_get (getDirectionInfo (direction tank)) tank),
                   forwardLength := c_forwardLength command\<rparr>, []))
     else if c_type command = ''fire'' then Inr (s\<lparr>fire := True\<rparr>, [])
     else if c_type command = ''turn'' then
       Inr (s\<lparr>nextDirection := Some (c_direction command)\<rparr>, [])
     else if c_type command = ''query'' then
       (if c_query command = ''my-tank'' then
          Inr (s, [QueryResult (MyTankInfo (playerTank state name))])
        else if c_query command = ''map'' then
          Inr (s, [QueryResult (MapInfo (stageMap state))])
        else if c_query command = ''tanks'' then
          Inr (s, [QueryResult (TanksInfo (tanks state))])
        else if c_query command = ''my-fire-info'' then
          (case playerTank state name of
             None \<Rightarrow> Inl TypeError
           | Some tank \<Rightarrow>
               (let cooldown = cooldowns state (tankId tank);
                    bulletCount = length (filter (\<lambda>b. b_tankId b = tankId tank) (bullets state));
                    canFire = (int bulletCount < bulletLimit tank \<and> le_zero cooldown)
                in Inr (s, [QueryResult (MyFireInfo bulletCount canFire cooldown (bulletLimit tank))])))
        else Inr (s, []))
     else Inl ProtocolError)"

text \<open>
  \<^verbatim>\<open>getAIInput\<close> (lines 102 to 129), polled by the direction controller: the input it
  returns (\<open>None\<close> for \<^verbatim>\<open>null\<close>), the new closure state and the notes put. \<open>fsub\<close> is
  the subtraction of doubles. \<^verbatim>\<open>movedLength\<close> is \<^verbatim>\<open>Math.abs\<close> of the first difference
  and \<^verbatim>\<open>maxDistance\<close> the second difference; each is \<open>None\<close> when it is no finite number,
  and then \<^verbatim>\<open>movedLength === forwardLength\<close> is false.
\<close>

definition getAIInput ::
  "(real \<Rightarrow> real \<Rightarrow> real option) \<Rightarrow> string \<Rightarrow> 'm State \<Rightarrow> interp
     \<Rightarrow> Input option \<times> interp \<times> 'm Note list" where
  "getAIInput fsub name state s =
    (case playerTank state name of
       None \<Rightarrow> (None, s, [])
     | Some tank \<Rightarrow>
        (if nextDirection s \<noteq> None \<and> Some (direction tank) \<noteq> nextDirection s then
           (Some (TurnInput (the (nextDirection s))),
            s\<lparr>nextDirection := None, forwardLength := 0\<rparr>, [])
         else if forwardLength s > 0 then
           (let movedLength =
                  Option.bind (startPos s)
                    (\<lambda>p. map_option abs (fsub (tank_get (getDirectionInfo (direction tank)) tank) p));
                maxDistance = Option.bind movedLength (fsub (forwardLength s))
            in if movedLength = Some (forwardLength s) then (None, s\<lparr>forwardLength := 0\<rparr>, [Reach])
               else (Some (ForwardInput maxDistance), s, []))
         else (None, s, [])))"

text \<open>The closure handed to the fire controller (lines 19 to 26).\<close>

definition shouldFire :: "interp \<Rightarrow> bool \<times> interp" where
  "shouldFire s = (if fire s then (True, s\<lparr>fire := False\<rparr>) else (False, s))"

text \<open>
  One turn of \<^verbatim>\<open>notifyWhenBulletComplete\<close> (lines 27 to 38) for the bullets of a
  \<^verbatim>\<open>DESTROY_BULLETS\<close> action.
\<close>

definition notifyWhenBulletComplete :: "string \<Rightarrow> 'm State \<Rightarrow> BulletRecord list \<Rightarrow> 'm Note list" where
  "notifyWhenBulletComplete name state bs =
    (case playerTank state name of
       None \<Rightarrow> []
     | Some tank \<Rightarrow> if list_ex (\<lambda>b. b_tankId b = tankId tank) bs then [BulletComplete] else [])"

text \<open>
  The saga scheduler interleaves the command loop, the two closures and the bullet watcher;
  none of them yields to another inside one of the operations above. An event is one such
  operation, with the store it sees.
\<close>

datatype event =
    Command AICommand
  | PollInput
  | PollFire
  | DestroyBullets "BulletRecord list"

text \<open>What the event's caller gets back: the input, the fire flag, or nothing.\<close>

datatype reply = InputReply "Input option" | FireReply bool | NoReply

definition step ::
  "(real \<Rightarrow> real \<Rightarrow> real option) \<Rightarrow> string \<Rightarrow> interp \<Rightarrow> 'm State \<times> event
     \<Rightarrow> error + (interp \<times> 'm Note list \<times> reply)" where
  "step fsub name s ge =
    (case snd ge of
       Command c \<Rightarrow>
         (case handleCommand name (fst ge) s c of
            Inl e \<Rightarrow> Inl e
          | Inr (s', ns) \<Rightarrow> Inr (s', ns, NoReply))
     | PollInput \<Rightarrow>
         (case getAIInput fsub name (fst ge) s of (r, s', ns) \<Rightarrow> Inr (s', ns, InputReply r))
     | PollFire \<Rightarrow> (case shouldFire s of (b, s') \<Rightarrow> Inr (s', [], FireReply b))
     | DestroyBullets bs \<Rightarrow> Inr (s, notifyWhenBulletComplete name (fst ge) bs, NoReply))"

text \<open>
  A run of the interpreter over a list of events: the notes put and the replies given so
  far, and the closure state at the end or the error that ended the command loop.
\<close>

fun run ::
  "(real \<Rightarrow> real \<Rightarrow> real option) \<Rightarrow> string \<Rightarrow> interp \<Rightarrow> ('m State \<times> event) list
     \<Rightarrow> 'm Note list \<times> reply list \<times> (error + interp)" where
  "run fsub name s [] = ([], [], Inr s)"
| "run fsub name s (ge # ges) =
    (case step fsub name s ge of
       Inl e \<Rightarrow> ([], [], Inl e)
     | Inr (s', ns, r) \<Rightarrow>
         (case run fsub name s' ges of (ns', rs, fin) \<Rightarrow> (ns @ ns', r # rs, fin)))"

subsection \<open>The supervisor\<close>

text \<open>The task that \<^verbatim>\<open>spawn(AIWorkerSaga, playerName, AIWorker)\<close> returns.\<close>

datatype Task = Task string

text \<open>The actions that \<^verbatim>\<open>AIMasterSaga\<close> takes (line 183).\<close>

datatype Action =
    KILL (targetTank: TankRecord) (targetPlayer: PlayerRecord)
  | LOAD_STAGE
  | GAMEOVER

text \<open>The actions it puts, and what it does to the world outside its own variables.\<close>

datatype PutAction =
    CREATE_PLAYER PlayerRecord
  | REMOVE_FIRST_REMAINING_ENEMY
  | ACTIVATE_PLAYER string nat

datatype effect =
    Put PutAction
  | SpawnTank real real Side TankLevel nat
  | Spawn Task
  | Cancel Task

text \<open>
  The variables of \<^verbatim>\<open>AIMasterSaga\<close> (lines 179 and 181). \<^verbatim>\<open>taskMap\<close> is a JavaScript
  object with string keys: an association list in insertion order, which is the order of
  \<^verbatim>\<open>Object.entries\<close>. Reading a key is \<open>map_of\<close>, assigning one is \<open>AList.update\<close> and
  \<^verbatim>\<open>delete\<close> is \<open>AList.delete\<close>.
\<close>

record master =
  taskMap :: "(string \<times> Task) list"
  nextAIPlayerIndex :: nat

definition initial_master :: master where
  "initial_master = \<lparr>taskMap = [], nextAIPlayerIndex = 0\<rparr>"

text \<open>The decimal digits of a number, as a template literal prints it.\<close>

definition digit_char :: "nat \<Rightarrow> char" where
  "digit_char d = ''0123456789'' ! d"

function string_of_nat :: "nat \<Rightarrow> string" where
  "string_of_nat n =
    (if n < 10 then [digit_char n] else string_of_nat (n div 10) @ [digit_char (n mod 10)])"
  by pat_completeness auto
termination
  by (relation "measure id") auto

declare string_of_nat.simps [simp del]

text \<open>
  \<^verbatim>\<open>addAI\<close> (lines 204 to 235). \<open>state\<close> answers the \<^verbatim>\<open>select()\<close> of line 205; \<open>pos\<close>
  is what \<^verbatim>\<open>selectors.availableSpawnPosition\<close> answers at line 216 and \<open>newTankId\<close>
  what \<^verbatim>\<open>spawnTank\<close> (\<^verbatim>\<open>utils/common\<close>) returns at line 220: neither is part of src.
  \<^verbatim>\<open>TankRecord({ x, y, side, level, hp })\<close> is the effect \<open>SpawnTank\<close> with these five
  values.
\<close>

definition addAI :: "'m State \<Rightarrow> real \<times> real \<Rightarrow> nat \<Rightarrow> master \<Rightarrow> master \<times> effect list" where
  "addAI state pos newTankId m =
    (if remainingEnemies state \<noteq> [] then
       (let name = ''AI-'' @ string_of_nat (nextAIPlayerIndex m);
            lvl = hd (remainingEnemies state);
            hp = (if lvl = Armor then 4 else 1)
        in (m\<lparr>nextAIPlayerIndex := Suc (nextAIPlayerIndex m),
               taskMap := AList.update name (Task name) (taskMap m)\<rparr>,
            [Put (CREATE_PLAYER \<lparr>playerName = name, lives = \<infinity>, p_side = AI\<rparr>),
             Put REMOVE_FIRST_REMAINING_ENEMY,
             SpawnTank (fst pos) (snd pos) AI lvl hp,
             Spawn (Task name),
             Put (ACTIVATE_PLAYER name newTankId)]))
     else (m, []))"

text \<open>
  The loop of lines 197 to 200 over \<^verbatim>\<open>Object.entries(taskMap)\<close>, an array made before the
  first turn.
\<close>

fun cancelAll :: "(string \<times> Task) list \<Rightarrow> master \<Rightarrow> master \<times> effect list" where
  "cancelAll [] m = (m, [])"
| "cancelAll (entry # entries) m =
    (case cancelAll entries (m\<lparr>taskMap := AList.delete (fst entry) (taskMap m)\<rparr>) of
       (m', effs) \<Rightarrow> (m', Cancel (snd entry) # effs))"

text \<open>
  One turn of the loop of lines 182 to 202. \<^verbatim>\<open>max\<close> is 1, so the loop of line 186 calls
  \<^verbatim>\<open>addAI\<close> once. For a killed AI tank whose player has no entry, \<^verbatim>\<open>task\<close> is
  \<^verbatim>\<open>undefined\<close> and \<^verbatim>\<open>task.cancel()\<close> throws.
\<close>

definition masterStep ::
  "'m State \<Rightarrow> real \<times> real \<Rightarrow> nat \<Rightarrow> master \<Rightarrow> Action \<Rightarrow> error + (master \<times> effect list)" where
  "masterStep state pos newTankId m action =
    (case action of
       LOAD_STAGE \<Rightarrow> Inr (addAI state pos newTankId m)
     | KILL tank player \<Rightarrow>
         (if side tank = AI then
            (case map_of (taskMap m) (playerName player) of
               None \<Rightarrow> Inl TypeError
             | Some task \<Rightarrow>
                 (case addAI state pos newTankId
                         (m\<lparr>taskMap := AList.delete (playerName player) (taskMap m)\<rparr>) of
                    (m', effs) \<Rightarrow> Inr (m', Cancel task # effs)))
          else Inr (m, []))
     | GAMEOVER \<Rightarrow> Inr (cancelAll (taskMap m) m))"

text \<open>The identities with a registered session.\<close>

definition registry :: "master \<Rightarrow> string set" where
  "registry m = fst ` set (taskMap m)"

subsection \<open>Observations on runs, and stores used as concrete inputs\<close>

text \<open>The answers that the fire controller got, in order.\<close>

definition fireReplies :: "reply list \<Rightarrow> bool list" where
  "fireReplies rs = concat (map (\<lambda>r. case r of FireReply b \<Rightarrow> [b] | _ \<Rightarrow> []) rs)"

text \<open>The event is a command whose \<^verbatim>\<open>type\<close> is \<open>t\<close>.\<close>

definition isCommandOf :: "string \<Rightarrow> event \<Rightarrow> bool" where
  "isCommandOf t e = (case e of Command c \<Rightarrow> c_type c = t | _ \<Rightarrow> False)"

text \<open>A store in which no player has a tank.\<close>

definition emptyStore :: "unit State" where
  "emptyStore = \<lparr>playerTank = (\<lambda>n. None), tanks = [], bullets = [], cooldowns = (\<lambda>i. None),
     stageMap = (), remainingEnemies = []\<rparr>"

definition fireCmd :: AICommand where
  "fireCmd = \<lparr>c_type = ''fire'', c_forwardLength = 0, c_direction = Up, c_query = ''''\<rparr>"

definition queryCmd :: "string \<Rightarrow> AICommand" where
  "queryCmd q = \<lparr>c_type = ''query'', c_forwardLength = 0, c_direction = Up, c_query = q\<rparr>"

text \<open>A store in which the player \<^verbatim>\<open>AI-0\<close> has a tank with one bullet in flight.\<close>

definition tankA :: TankRecord where
  "tankA = \<lparr>tankId = 7, tank_x = 32, tank_y = 64, direction = Up, side = AI, level = Basic,
     hp = 1, bulletLimit = 2\<rparr>"

definition storeA :: "unit State" where
  "storeA = \<lparr>playerTank = (\<lambda>n. if n = ''AI-0'' then Some tankA else None), tanks = [tankA],
     bullets = [\<lparr>bulletId = 1, b_tankId = 7\<rparr>, \<lparr>bulletId = 2, b_tankId = 3\<rparr>],
     cooldowns = (\<lambda>i. if i = 7 then Some 0 else None), stageMap = (),
     remainingEnemies = [Basic, Armor]\<rparr>"

text \<open>The \<^verbatim>\<open>canFire\<close> of the result, when it is one \<^verbatim>\<open>my-fire-info\<close> note.\<close>

definition canFireOf :: "error + (interp \<times> 'm Note list) \<Rightarrow> bool option" where
  "canFireOf r = (case r of Inr (s, [QueryResult (MyFireInfo n cf cd bl)]) \<Rightarrow> Some cf | _ \<Rightarrow> None)"

definition forwardCmd :: "real \<Rightarrow> AICommand" where
  "forwardCmd l = \<lparr>c_type = ''forward'', c_forwardLength = l, c_direction = Up, c_query = ''''\<rparr>"

definition turnCmd :: "Direction \<Rightarrow> AICommand" where
  "turnCmd d = \<lparr>c_type = ''turn'', c_forwardLength = 0, c_direction = d, c_query = ''''\<rparr>"

definition otherCmd :: "string \<Rightarrow> AICommand" where
  "otherCmd t = \<lparr>c_type = t, c_forwardLength = 0, c_direction = Up, c_query = ''''\<rparr>"

text \<open>
  The subtraction of doubles where it rounds nothing, as on the integers below \<open>2^53\<close>:
  the concrete inputs of this file use only such numbers.
\<close>

definition exactSub :: "real \<Rightarrow> real \<Rightarrow> real option" where
  "exactSub a b = Some (a - b)"

text \<open>
  \<^verbatim>\<open>movedLength\<close> of line 115 for a tank and a start position \<open>p\<close>, as the code computes
  it: \<^verbatim>\<open>Math.abs\<close> of the double difference between the tank's coordinate on the axis it
  faces and \<open>p\<close>. \<open>maxDistanceAt\<close> is \<^verbatim>\<open>maxDistance\<close> of line 116 for the tank that the
  player has in a store, the double difference between \<open>L\<close> and that moved length.
\<close>

definition movedLength :: "(real \<Rightarrow> real \<Rightarrow> real option) \<Rightarrow> TankRecord \<Rightarrow> real \<Rightarrow> real option" where
  "movedLength fsub tank p =
     map_option abs (fsub (tank_get (getDirectionInfo (direction tank)) tank) p)"


text \<open>The answers that the direction controller got, in order.\<close>

definition inputReplies :: "reply list \<Rightarrow> Input option list" where
  "inputReplies rs = concat (map (\<lambda>r. case r of InputReply i \<Rightarrow> [i] | _ \<Rightarrow> []) rs)"


text \<open>
  The tank \<open>tankA\<close> moved to the point \<open>(q, q)\<close> and facing \<open>d\<close>: its coordinate is
  \<open>q\<close> on either axis. \<open>storeAt q d\<close> is the store \<open>storeA\<close> with this tank for the
  player \<^verbatim>\<open>AI-0\<close>.
\<close>

definition tankAt :: "real \<Rightarrow> Direction \<Rightarrow> TankRecord" where
  "tankAt q d = tankA\<lparr>tank_x := q, tank_y := q, direction := d\<rparr>"

definition storeAt :: "real \<Rightarrow> Direction \<Rightarrow> unit State" where
  "storeAt q d = storeA\<lparr>playerTank := (\<lambda>n. if n = ''AI-0'' then Some (tankAt q d) else None)\<rparr>"

text \<open>A forward of length 4 from coordinate 64 in progress, with a pending direction.\<close>

definition movingUp :: interp where
  "movingUp = \<lparr>fire = False, nextDirection = Some Up, forwardLength = 4, startPos = Some 64\<rparr>"

text \<open>Concrete inputs for the supervisor.\<close>

definition killOf :: "string \<Rightarrow> Action" where
  "killOf name = KILL tankA \<lparr>playerName = name, lives = \<infinity>, p_side = AI\<rparr>"

definition masterA :: master where
  "masterA = \<lparr>taskMap = [(''AI-0'', Task ''AI-0''), (''AI-1'', Task ''AI-1'')], nextAIPlayerIndex = 2\<rparr>"

text \<open>
  The names \<^verbatim>\<open>AI-0\<close> to \<^verbatim>\<open>AI-(n-1)\<close> that \<^verbatim>\<open>addAI\<close> has given out when the counter
  is \<open>n\<close>, and the invariant of the supervisor's variables: the keys of \<^verbatim>\<open>taskMap\<close> are
  distinct (it is an object), each is a name given out so far and is mapped to the task
  spawned for it.
\<close>

definition aiNames :: "nat \<Rightarrow> string list" where
  "aiNames n = map (\<lambda>k. ''AI-'' @ string_of_nat k) [0..<n]"

definition wf_master :: "master \<Rightarrow> bool" where
  "wf_master m =
     (distinct (map fst (taskMap m)) \<and>
      list_all (\<lambda>e. fst e \<in> set (aiNames (nextAIPlayerIndex m)) \<and> snd e = Task (fst e)) (taskMap m))"

section \<open>Properties\<close>

subsection \<open>The fire flag\<close>










lemma fireReplies_NoReply: "fireReplies (map (\<lambda>x. NoReply) xs) = []"
  by (induction xs) (simp_all add: fireReplies_def)





subsection \<open>Queries\<close>

text \<open>
  C2. For a \<^verbatim>\<open>query\<close> command \<^verbatim>\<open>my-fire-info\<close> with the tank of the player present, the
  handler puts one note with the number \<open>n\<close> of bullets in flight of this tank, its
  cooldown, its bullet limit and \<^verbatim>\<open>canFire = bulletCount < bulletLimit && cooldown <= 0\<close>,
  and changes nothing. So \<^verbatim>\<open>canFire\<close> is false when the count equals the limit, and true
  when the cooldown is 0 and the count is below the limit.
\<close>

theorem my_fire_info_canFire:
  assumes "c_type c = ''query''" and "c_query c = ''my-fire-info''"
    and "playerTank state name = Some tank"
    and "n = length (filter (\<lambda>b. b_tankId b = tankId tank) (bullets state))"
  shows "handleCommand name state s c =
            Inr (s, [QueryResult (MyFireInfo n
               (int n < bulletLimit tank \<and> le_zero (cooldowns state (tankId tank)))
               (cooldowns state (tankId tank)) (bulletLimit tank))])
          \<and> (\<forall>cd. cooldowns state (tankId tank) = Some cd \<longrightarrow>
                canFireOf (handleCommand name state s c) = Some (int n < bulletLimit tank \<and> cd \<le> 0))
          \<and> (int n = bulletLimit tank \<longrightarrow> canFireOf (handleCommand name state s c) = Some False)
          \<and> (cooldowns state (tankId tank) = Some 0 \<and> int n < bulletLimit tank \<longrightarrow>
                canFireOf (handleCommand name state s c) = Some True)"
  using assms by (auto simp: handleCommand_def Let_def canFireOf_def)

theorem my_fire_info_canFire_witness:
  "handleCommand ''AI-0'' storeA initial (queryCmd ''my-fire-info'') =
     Inr (initial, [QueryResult (MyFireInfo 1 True (Some 0) 2)])
   \<and> canFireOf (handleCommand ''AI-0'' storeA initial (queryCmd ''my-fire-info'')) = Some True"
proof -
  have h: "c_type (queryCmd ''my-fire-info'') = ''query''"
    "c_query (queryCmd ''my-fire-info'') = ''my-fire-info''"
    "playerTank storeA ''AI-0'' = Some tankA"
    "1 = length (filter (\<lambda>b. b_tankId b = tankId tankA) (bullets storeA))"
    by (simp_all add: queryCmd_def storeA_def tankA_def)
  from my_fire_info_canFire[OF h, where s = initial]
  show ?thesis
    by (simp add: storeA_def tankA_def canFireOf_def)
qed

text \<open>
  C10. A command of kind \<^verbatim>\<open>query\<close> whose \<^verbatim>\<open>query\<close> field is none of \<^verbatim>\<open>my-tank\<close>,
  \<^verbatim>\<open>map\<close>, \<^verbatim>\<open>tanks\<close> and \<^verbatim>\<open>my-fire-info\<close> is skipped: no note, no error, the closure
  state unchanged, and the run goes on with the events that follow.
\<close>

theorem unknown_query_skipped:
  assumes "c_type c = ''query''"
    and "c_query c \<notin> {''my-tank'', ''map'', ''tanks'', ''my-fire-info''}"
  shows "handleCommand name state s c = Inr (s, [])
       \<and> run fsub name s ((state, Command c) # ges) =
           (case run fsub name s ges of (ns, rs, fin) \<Rightarrow> (ns, NoReply # rs, fin))"
  using assms by (simp add: handleCommand_def step_def)

theorem unknown_query_skipped_witness:
  "handleCommand ''AI-0'' storeA initial (queryCmd ''bullets'') = Inr (initial, [])
   \<and> run exactSub ''AI-0'' initial [(storeA, Command (queryCmd ''bullets'')), (storeA, Command (queryCmd ''map''))]
      = ([QueryResult (MapInfo ())], [NoReply, NoReply], Inr initial)"
proof -
  have h: "c_type (queryCmd ''bullets'') = ''query''"
    "c_query (queryCmd ''bullets'') \<notin> {''my-tank'', ''map'', ''tanks'', ''my-fire-info''}"
    by (simp_all add: queryCmd_def)
  from unknown_query_skipped[OF h, where name = "''AI-0''" and state = storeA and s = initial
      and ges = "[(storeA, Command (queryCmd ''map''))]"]
  show ?thesis
    by (simp add: queryCmd_def step_def handleCommand_def storeA_def)
qed

subsection \<open>Command kinds and errors\<close>

text \<open>
  C6, as the claim states it, fails: a command of the recognised kind \<^verbatim>\<open>query\<close> is not
  always handled without throwing. \<^verbatim>\<open>my-fire-info\<close> for a player without a tank reads
  \<^verbatim>\<open>tank.tankId\<close> of \<^verbatim>\<open>null\<close>.
\<close>

theorem recognized_query_throws_counterexample:
  "c_type (queryCmd ''my-fire-info'') = ''query''
   \<and> handleCommand ''AI-0'' emptyStore initial (queryCmd ''my-fire-info'') = Inl TypeError"
  by (simp add: handleCommand_def emptyStore_def queryCmd_def)

text \<open>
  C6, amended. The handler throws the protocol error exactly for the commands whose kind is
  none of \<^verbatim>\<open>forward\<close>, \<^verbatim>\<open>fire\<close>, \<^verbatim>\<open>turn\<close> and \<^verbatim>\<open>query\<close>, and that error ends the run
  of the interpreter: the events that follow are not handled. A command of a recognised
  kind never throws the protocol error; it throws at all only when it is the query
  \<^verbatim>\<open>my-fire-info\<close> and the player has no tank, and otherwise it returns.
\<close>

theorem command_kinds:
  "(handleCommand name state s c = Inl ProtocolError)
      = (c_type c \<notin> {''forward'', ''fire'', ''turn'', ''query''})
   \<and> (c_type c \<notin> {''forward'', ''fire'', ''turn'', ''query''} \<longrightarrow>
        run fsub name s ((state, Command c) # ges) = ([], [], Inl ProtocolError))
   \<and> (handleCommand name state s c = Inl TypeError)
      = (c_type c = ''query'' \<and> c_query c = ''my-fire-info'' \<and> playerTank state name = None)
   \<and> (c_type c \<in> {''forward'', ''fire'', ''turn'', ''query''}
        \<and> \<not> (c_query c = ''my-fire-info'' \<and> playerTank state name = None) \<longrightarrow>
        (\<exists>s' ns. handleCommand name state s c = Inr (s', ns)))"
  by (auto simp: handleCommand_def step_def Let_def split: option.splits)

theorem command_kinds_witness:
  "handleCommand ''AI-0'' storeA initial (otherCmd ''stop'') = Inl ProtocolError
   \<and> run exactSub ''AI-0'' initial [(storeA, Command (otherCmd ''stop'')), (storeA, Command fireCmd)]
       = ([], [], Inl ProtocolError)
   \<and> handleCommand ''AI-0'' storeA initial (forwardCmd 5) \<noteq> Inl ProtocolError
   \<and> handleCommand ''AI-0'' storeA initial (queryCmd ''my-fire-info'') \<noteq> Inl TypeError"
  using command_kinds[where name = "''AI-0''" and state = storeA and s = initial
      and c = "otherCmd ''stop''" and fsub = exactSub and ges = "[(storeA, Command fireCmd)]"]
    command_kinds[where name = "''AI-0''" and state = storeA and s = initial
      and c = "forwardCmd 5" and fsub = exactSub and ges = "[]"]
    command_kinds[where name = "''AI-0''" and state = storeA and s = initial
      and c = "queryCmd ''my-fire-info''" and fsub = exactSub and ges = "[]"]
  by (simp add: otherCmd_def forwardCmd_def queryCmd_def storeA_def)

text \<open>
  C5, as the claim states it, fails: with the tank of the player absent, the handler of
  \<^verbatim>\<open>my-fire-info\<close> throws, and it throws because the tank is absent. Line 81 asserts that
  the tank is there (\<^verbatim>\<open>console.assert\<close> reports and goes on), line 83 reads its
  \<^verbatim>\<open>tankId\<close>.
\<close>

theorem absent_actor_my_fire_info_counterexample:
  "playerTank storeA ''AI-1'' = None
   \<and> handleCommand ''AI-1'' storeA (initial\<lparr>fire := True\<rparr>) (queryCmd ''my-fire-info'') = Inl TypeError"
  by (simp add: handleCommand_def storeA_def queryCmd_def)

text \<open>
  C5, amended. With the tank of the player absent, every command but the query
  \<^verbatim>\<open>my-fire-info\<close> is handled as without that absence mattering: \<^verbatim>\<open>forward\<close> is ignored and
  leaves the closure state unchanged, \<^verbatim>\<open>fire\<close> and \<^verbatim>\<open>turn\<close> set their variable,
  \<^verbatim>\<open>my-tank\<close> puts a note with the absent marker, \<^verbatim>\<open>map\<close> and \<^verbatim>\<open>tanks\<close> put their
  snapshot, an unknown query is skipped; the direction closure answers \<^verbatim>\<open>null\<close> and the
  bullet watcher puts nothing. The query \<^verbatim>\<open>my-fire-info\<close> requires the tank: without it
  the handler throws, and it is the only one that does.
\<close>

theorem absent_actor_benign:
  assumes "playerTank state name = None"
  shows "(c_type c = ''forward'' \<longrightarrow> handleCommand name state s c = Inr (s, []))
       \<and> (c_type c = ''fire'' \<longrightarrow> handleCommand name state s c = Inr (s\<lparr>fire := True\<rparr>, []))
       \<and> (c_type c = ''turn'' \<longrightarrow>
            handleCommand name state s c = Inr (s\<lparr>nextDirection := Some (c_direction c)\<rparr>, []))
       \<and> (c_type c = ''query'' \<and> c_query c = ''my-tank'' \<longrightarrow>
            handleCommand name state s c = Inr (s, [QueryResult (MyTankInfo None)]))
       \<and> (c_type c = ''query'' \<and> c_query c = ''map'' \<longrightarrow>
            handleCommand name state s c = Inr (s, [QueryResult (MapInfo (stageMap state))]))
       \<and> (c_type c = ''query'' \<and> c_query c = ''tanks'' \<longrightarrow>
            handleCommand name state s c = Inr (s, [QueryResult (TanksInfo (tanks state))]))
       \<and> (c_type c = ''query'' \<and> c_query c \<notin> {''my-tank'', ''map'', ''tanks'', ''my-fire-info''} \<longrightarrow>
            handleCommand name state s c = Inr (s, []))
       \<and> (c_type c = ''query'' \<and> c_query c = ''my-fire-info'' \<longrightarrow>
            handleCommand name state s c = Inl TypeError)
       \<and> (handleCommand name state s c = Inl TypeError \<longrightarrow>
            c_type c = ''query'' \<and> c_query c = ''my-fire-info'')
       \<and> getAIInput fsub name state s = (None, s, [])
       \<and> notifyWhenBulletComplete name state bs = []"
  using assms
  by (auto simp: handleCommand_def getAIInput_def notifyWhenBulletComplete_def split: if_splits)

theorem absent_actor_benign_witness:
  "playerTank emptyStore ''AI-0'' = None
   \<and> handleCommand ''AI-0'' emptyStore initial (forwardCmd 5) = Inr (initial, [])
   \<and> handleCommand ''AI-0'' emptyStore initial (queryCmd ''my-tank'')
       = Inr (initial, [QueryResult (MyTankInfo None)])
   \<and> handleCommand ''AI-0'' emptyStore initial (turnCmd Left)
       = Inr (initial\<lparr>nextDirection := Some Left\<rparr>, [])"
proof -
  have h: "playerTank emptyStore ''AI-0'' = None"
    by (simp add: emptyStore_def)
  from absent_actor_benign[OF h, where c = "forwardCmd 5" and s = initial]
    absent_actor_benign[OF h, where c = "queryCmd ''my-tank''" and s = initial]
    absent_actor_benign[OF h, where c = "turnCmd Left" and s = initial] h
  show ?thesis
    by (simp add: forwardCmd_def queryCmd_def turnCmd_def)
qed

subsection \<open>The direction closure\<close>

lemma step_no_reach:
  assumes "forwardLength s \<le> 0" "\<not> isCommandOf ''forward'' (snd ge)"
    "step fsub name s ge = Inr (s', ns, r)"
  shows "forwardLength s' \<le> 0 \<and> Reach \<notin> set ns"
  using assms
  by (auto simp: step_def isCommandOf_def handleCommand_def getAIInput_def shouldFire_def Let_def
      notifyWhenBulletComplete_def
      split: event.splits option.splits if_splits sum.splits prod.splits)

lemma run_no_reach:
  assumes "forwardLength s \<le> 0" "\<not> list_ex (\<lambda>ge. isCommandOf ''forward'' (snd ge)) ges"
  shows "Reach \<notin> set (fst (run fsub name s ges))"
  using assms
proof (induction ges arbitrary: s)
  case Nil
  then show ?case by simp
next
  case (Cons ge ges)
  show ?case
  proof (cases "step fsub name s ge")
    case (Inl e)
    then show ?thesis by simp
  next
    case (Inr t)
    obtain s' ns r where t: "t = (s', ns, r)" by (cases t)
    from Cons.prems Inr t step_no_reach[where s = s and ge = ge and s' = s' and ns = ns and r = r]
    have s': "forwardLength s' \<le> 0" and ns: "Reach \<notin> set ns" by auto
    from Cons.prems have "\<not> list_ex (\<lambda>ge. isCommandOf ''forward'' (snd ge)) ges" by simp
    from Cons.IH[OF s' this] ns Inr t show ?thesis
      by (auto split: prod.splits)
  qed
qed

lemma playerTank_storeAt: "playerTank (storeAt q d) ''AI-0'' = Some (tankAt q d)"
  by (simp add: storeAt_def tankAt_def)

lemma movedLength_tankAt: "movedLength exactSub (tankAt q d) p = Some \<bar>q - p\<bar>"
  by (cases d) (simp_all add: movedLength_def tankAt_def exactSub_def)



lemma inputReplies_append: "inputReplies (xs @ ys) = inputReplies xs @ inputReplies ys"
  by (simp add: inputReplies_def)






text \<open>
  C3. With a forward in progress (\<^verbatim>\<open>forwardLength > 0\<close>), a \<^verbatim>\<open>turn\<close> command makes its
  direction pending, and the poll that consumes it (the tank faces another direction)
  returns the turn input and sets \<^verbatim>\<open>forwardLength\<close> to 0. Whatever events follow, as
  long as none is a \<^verbatim>\<open>forward\<close> command, no \<^verbatim>\<open>reach\<close> note is put.
\<close>

theorem turn_clears_forward:
  assumes "c_type c = ''turn''" and "0 < forwardLength s"
    and "playerTank state' name = Some tank" and "direction tank \<noteq> c_direction c"
    and "\<not> list_ex (\<lambda>ge. isCommandOf ''forward'' (snd ge)) ges"
  shows "handleCommand name state s c = Inr (s\<lparr>nextDirection := Some (c_direction c)\<rparr>, [])
       \<and> getAIInput fsub name state' (s\<lparr>nextDirection := Some (c_direction c)\<rparr>)
           = (Some (TurnInput (c_direction c)), s\<lparr>nextDirection := None, forwardLength := 0\<rparr>, [])
       \<and> Reach \<notin> set (fst (run fsub name (s\<lparr>nextDirection := None, forwardLength := 0\<rparr>) ges))
       \<and> Reach \<notin> set (fst (run fsub name s ((state, Command c) # (state', PollInput) # ges)))"
proof -
  let ?s2 = "s\<lparr>nextDirection := None, forwardLength := 0\<rparr>"
  have c: "handleCommand name state s c = Inr (s\<lparr>nextDirection := Some (c_direction c)\<rparr>, [])"
    using assms(1) by (simp add: handleCommand_def)
  have p: "getAIInput fsub name state' (s\<lparr>nextDirection := Some (c_direction c)\<rparr>)
           = (Some (TurnInput (c_direction c)), ?s2, [])"
    using assms(3,4) by (simp add: getAIInput_def)
  have n: "Reach \<notin> set (fst (run fsub name ?s2 ges))"
    by (rule run_no_reach) (use assms(5) in simp_all)
  have "Reach \<notin> set (fst (run fsub name s ((state, Command c) # (state', PollInput) # ges)))"
    using c p n by (auto simp: step_def split: prod.splits)
  with c p n show ?thesis by blast
qed

theorem turn_clears_forward_witness:
  "handleCommand ''AI-0'' (storeAt 60 Up) movingUp (turnCmd Left)
     = Inr (movingUp\<lparr>nextDirection := Some Left\<rparr>, [])
   \<and> getAIInput exactSub ''AI-0'' (storeAt 60 Up) (movingUp\<lparr>nextDirection := Some Left\<rparr>)
       = (Some (TurnInput Left), movingUp\<lparr>nextDirection := None, forwardLength := 0\<rparr>, [])
   \<and> run exactSub ''AI-0'' movingUp
       [(storeAt 60 Up, Command (turnCmd Left)), (storeAt 60 Up, PollInput), (storeAt 60 Left, PollInput)]
     = ([], [NoReply, InputReply (Some (TurnInput Left)), InputReply None],
        Inr (movingUp\<lparr>nextDirection := None, forwardLength := 0\<rparr>))"
proof -
  have h: "c_type (turnCmd Left) = ''turn''" "0 < forwardLength movingUp"
    "playerTank (storeAt 60 Up) ''AI-0'' = Some (tankAt 60 Up)"
    "direction (tankAt 60 Up) \<noteq> c_direction (turnCmd Left)"
    "\<not> list_ex (\<lambda>ge. isCommandOf ''forward'' (snd ge)) [(storeAt 60 Left, PollInput)]"
    by (simp_all add: turnCmd_def movingUp_def playerTank_storeAt tankAt_def isCommandOf_def)
  from turn_clears_forward[OF h, where state = "storeAt 60 Up" and fsub = exactSub]
  show ?thesis
    by (simp add: turnCmd_def step_def getAIInput_def playerTank_storeAt tankAt_def movingUp_def)
qed

text \<open>
  C9, as the claim states it, fails: with the pending direction equal to the tank's
  direction and \<^verbatim>\<open>forwardLength > 0\<close>, a poll at which the moved length equals
  \<^verbatim>\<open>forwardLength\<close> returns \<^verbatim>\<open>null\<close>, not a forward input, and clears the forward
  progress (the branch of lines 117 to 120). The one subtraction of this run is
  \<open>60 - 64\<close>, which is exact on doubles.
\<close>

theorem same_direction_reach_counterexample:
  "playerTank (storeAt 60 Up) ''AI-0'' = Some (tankAt 60 Up)
   \<and> direction (tankAt 60 Up) = Up
   \<and> nextDirection movingUp = Some Up \<and> forwardLength movingUp = 4
   \<and> getAIInput exactSub ''AI-0'' (storeAt 60 Up) movingUp
       = (None, movingUp\<lparr>forwardLength := 0\<rparr>, [Reach])"
  by (simp add: getAIInput_def storeAt_def tankAt_def movingUp_def tankA_def storeA_def exactSub_def)

text \<open>
  C9, amended. With the pending direction \<open>d\<close> equal to the tank's direction, a poll does
  not take the turn branch: it answers as it would with no pending direction, and \<open>d\<close>
  stays pending. The moved length is the one the code computes in double arithmetic from
  \<^verbatim>\<open>startPos\<close>. With \<^verbatim>\<open>forwardLength > 0\<close> the poll returns the forward input, with
  \<^verbatim>\<open>maxDistance\<close> the double difference of \<^verbatim>\<open>forwardLength\<close> and the moved length, and
  leaves the closure state as it is when the moved length differs from
  \<^verbatim>\<open>forwardLength\<close>; it puts \<^verbatim>\<open>reach\<close>, clears \<^verbatim>\<open>forwardLength\<close> and returns \<^verbatim>\<open>null\<close>
  when they are equal. With \<^verbatim>\<open>forwardLength <= 0\<close> it returns \<^verbatim>\<open>null\<close>. A poll consumes
  the pending direction exactly when the player has a tank whose direction differs from it.
\<close>

theorem pending_same_direction:
  assumes "nextDirection s = Some d"
  shows "(playerTank state name = Some tank \<and> direction tank = d \<longrightarrow>
            getAIInput fsub name state s =
              (case getAIInput fsub name state (s\<lparr>nextDirection := None\<rparr>) of
                 (r, s', ns) \<Rightarrow> (r, s'\<lparr>nextDirection := Some d\<rparr>, ns))
          \<and> (0 < forwardLength s
               \<and> Option.bind (startPos s) (movedLength fsub tank) \<noteq> Some (forwardLength s) \<longrightarrow>
               getAIInput fsub name state s =
                 (Some (ForwardInput
                    (Option.bind (Option.bind (startPos s) (movedLength fsub tank))
                       (fsub (forwardLength s)))), s, []))
          \<and> (0 < forwardLength s
               \<and> Option.bind (startPos s) (movedLength fsub tank) = Some (forwardLength s) \<longrightarrow>
               getAIInput fsub name state s = (None, s\<lparr>forwardLength := 0\<rparr>, [Reach]))
          \<and> (forwardLength s \<le> 0 \<longrightarrow> getAIInput fsub name state s = (None, s, [])))
       \<and> (nextDirection (fst (snd (getAIInput fsub name state s))) = None)
           = (\<exists>t. playerTank state name = Some t \<and> direction t \<noteq> d)"
proof -
  have m: "Option.bind (startPos s) (movedLength fsub tank) =
        Option.bind (startPos s)
          (\<lambda>p. map_option abs (fsub (tank_get (getDirectionInfo (direction tank)) tank) p))"
    by (cases "startPos s") (simp_all add: movedLength_def)
  show ?thesis
    using assms unfolding m
    by (auto simp: getAIInput_def Let_def split: option.splits)
qed

theorem pending_same_direction_witness:
  "nextDirection movingUp = Some Up
   \<and> getAIInput exactSub ''AI-0'' (storeAt 61 Up) movingUp
       = (Some (ForwardInput (Some 1)), movingUp, [])
   \<and> nextDirection (fst (snd (getAIInput exactSub ''AI-0'' (storeAt 61 Left) movingUp))) = None"
proof -
  have h: "nextDirection movingUp = Some Up" by (simp add: movingUp_def)
  have t: "playerTank (storeAt 61 Up) ''AI-0'' = Some (tankAt 61 Up)"
    "playerTank (storeAt 61 Left) ''AI-0'' = Some (tankAt 61 Left)"
    by (simp_all add: storeAt_def)
  have m: "Option.bind (startPos movingUp) (movedLength exactSub (tankAt 61 Up)) \<noteq> Some (forwardLength movingUp)"
    "Option.bind (Option.bind (startPos movingUp) (movedLength exactSub (tankAt 61 Up)))
       (exactSub (forwardLength movingUp)) = Some 1"
    "0 < forwardLength movingUp"
    "direction (tankAt 61 Up) = Up"
    by (simp_all add: movedLength_tankAt movingUp_def exactSub_def) (simp add: tankAt_def)
  from pending_same_direction[OF h, where state = "storeAt 61 Up" and name = "''AI-0''"
      and tank = "tankAt 61 Up" and fsub = exactSub] t(1) m
  have a: "getAIInput exactSub ''AI-0'' (storeAt 61 Up) movingUp
             = (Some (ForwardInput (Some 1)), movingUp, [])"
    by metis
  have "\<exists>t. playerTank (storeAt 61 Left) ''AI-0'' = Some t \<and> direction t \<noteq> Up"
    using t(2) by (simp add: tankAt_def)
  with pending_same_direction[OF h, where state = "storeAt 61 Left" and name = "''AI-0''"
      and tank = tankA and fsub = exactSub]
  have b: "nextDirection (fst (snd (getAIInput exactSub ''AI-0'' (storeAt 61 Left) movingUp))) = None"
    by blast
  from h a b show ?thesis by simp
qed

subsection \<open>The supervisor\<close>

lemma string_of_nat_small: "string_of_nat 0 = ''0''" "string_of_nat 1 = ''1''" "string_of_nat 2 = ''2''"
  by (simp_all add: string_of_nat.simps digit_char_def)

lemma cancelAll_filter:
  "cancelAll es m =
     (m\<lparr>taskMap := filter (\<lambda>e. fst e \<notin> fst ` set es) (taskMap m)\<rparr>, map (\<lambda>e. Cancel (snd e)) es)"
proof (induction es arbitrary: m)
  case Nil
  then show ?case by simp
next
  case (Cons e es)
  have "filter (\<lambda>x. fst x \<notin> fst ` set es) (AList.delete (fst e) (taskMap m))
          = filter (\<lambda>x. fst x \<notin> fst ` set (e # es)) (taskMap m)"
    by (auto simp: AList.delete_eq intro: filter_cong)
  with Cons.IH[of "m\<lparr>taskMap := AList.delete (fst e) (taskMap m)\<rparr>"] show ?case
    by simp
qed

text \<open>
  C8. On \<^verbatim>\<open>GAMEOVER\<close> the supervisor cancels the task of every entry of \<^verbatim>\<open>taskMap\<close>, in
  the order of the entries, and leaves \<^verbatim>\<open>taskMap\<close> empty: no identity is registered
  afterwards, and every task that was registered is among the cancelled ones.
\<close>

theorem gameover_clears_registry:
  "masterStep state pos newTankId m GAMEOVER
     = Inr (m\<lparr>taskMap := []\<rparr>, map (\<lambda>e. Cancel (snd e)) (taskMap m))
   \<and> registry (m\<lparr>taskMap := []\<rparr>) = {}
   \<and> (\<forall>name task. map_of (taskMap m) name = Some task \<longrightarrow>
         Cancel task \<in> set (map (\<lambda>e. Cancel (snd e)) (taskMap m)))"
proof -
  have "filter (\<lambda>e. fst e \<notin> fst ` set (taskMap m)) (taskMap m) = []"
    by (auto simp: filter_empty_conv)
  then have "masterStep state pos newTankId m GAMEOVER
     = Inr (m\<lparr>taskMap := []\<rparr>, map (\<lambda>e. Cancel (snd e)) (taskMap m))"
    by (simp add: masterStep_def cancelAll_filter)
  moreover have "registry (m\<lparr>taskMap := []\<rparr>) = {}" by (simp add: registry_def)
  moreover have "\<forall>name task. map_of (taskMap m) name = Some task \<longrightarrow>
         Cancel task \<in> set (map (\<lambda>e. Cancel (snd e)) (taskMap m))"
    by (auto dest!: map_of_SomeD intro: rev_image_eqI)
  ultimately show ?thesis by blast
qed

theorem gameover_clears_registry_witness:
  "masterStep emptyStore (0, 0) 9 masterA GAMEOVER
     = Inr (\<lparr>taskMap = [], nextAIPlayerIndex = 2\<rparr>, [Cancel (Task ''AI-0''), Cancel (Task ''AI-1'')])
   \<and> registry \<lparr>taskMap = [], nextAIPlayerIndex = 2\<rparr> = {}"
  using gameover_clears_registry[of emptyStore "(0, 0)" 9 masterA]
  by (simp add: masterA_def)

lemma keys_delete: "fst ` set (AList.delete k al) = fst ` set al - {k}"
proof -
  have "set (map fst (AList.delete k al)) = set (map fst al) - {k}"
    by (simp only: delete_keys set_removeAll)
  then show ?thesis by simp
qed

lemma registry_delete: "registry (m\<lparr>taskMap := AList.delete k (taskMap m)\<rparr>) = registry m - {k}"
  by (simp add: registry_def keys_delete)

lemma registry_update:
  "registry (m\<lparr>taskMap := AList.update k v (taskMap m)\<rparr>) = insert k (registry m)"
  by (simp add: registry_def dom_update)

lemma digit_char_code:
  assumes "a < 10"
  shows "(of_char (digit_char a) :: nat) = 48 + a"
proof -
  from assms have "a = 0 \<or> a = 1 \<or> a = 2 \<or> a = 3 \<or> a = 4 \<or> a = 5 \<or> a = 6 \<or> a = 7 \<or> a = 8 \<or> a = 9"
    by arith
  then show ?thesis
    by (elim disjE) (simp_all add: digit_char_def)
qed

lemma digit_char_inj:
  assumes "a < 10" "b < 10" "digit_char a = digit_char b"
  shows "a = b"
proof -
  have "(of_char (digit_char a) :: nat) = of_char (digit_char b)"
    using assms(3) by simp
  then show ?thesis
    by (simp add: digit_char_code assms(1,2))
qed

lemma string_of_nat_nonempty: "string_of_nat n \<noteq> []"
  by (subst string_of_nat.simps) simp

lemma string_of_nat_length:
  "(length (string_of_nat n) = 1) = (n < 10)"
proof (cases "n < 10")
  case True
  then show ?thesis by (subst string_of_nat.simps) simp
next
  case False
  have "length (string_of_nat (n div 10)) \<noteq> 0"
    using string_of_nat_nonempty[of "n div 10"] by simp
  with False show ?thesis
    by (subst string_of_nat.simps) simp
qed

lemma string_of_nat_inj:
  "string_of_nat a = string_of_nat b \<Longrightarrow> a = b"
proof (induction a arbitrary: b rule: less_induct)
  case (less a)
  from less.prems have len: "(a < 10) = (b < 10)"
    using string_of_nat_length[of a] string_of_nat_length[of b] by simp
  show ?case
  proof (cases "a < 10")
    case True
    with len have b: "b < 10" by simp
    from less.prems True b have "digit_char a = digit_char b"
      by (simp add: string_of_nat.simps[of a] string_of_nat.simps[of b])
    with True b show ?thesis by (rule digit_char_inj)
  next
    case False
    with len have b: "\<not> b < 10" by simp
    from less.prems False b
    have eq: "string_of_nat (a div 10) = string_of_nat (b div 10)"
      and dg: "digit_char (a mod 10) = digit_char (b mod 10)"
      by (simp_all add: string_of_nat.simps[of a] string_of_nat.simps[of b])
    from False have "a div 10 < a" by simp
    from less.IH[OF this eq] have d: "a div 10 = b div 10" .
    have m: "a mod 10 = b mod 10"
      by (rule digit_char_inj[OF _ _ dg]) simp_all
    from d m show ?thesis
      by (metis div_mult_mod_eq)
  qed
qed

lemma wf_master_fresh:
  assumes "wf_master m"
  shows "''AI-'' @ string_of_nat (nextAIPlayerIndex m) \<notin> registry m"
proof
  assume "''AI-'' @ string_of_nat (nextAIPlayerIndex m) \<in> registry m"
  with assms have "''AI-'' @ string_of_nat (nextAIPlayerIndex m) \<in> set (aiNames (nextAIPlayerIndex m))"
    by (auto simp: wf_master_def registry_def list_all_iff)
  then obtain k where "k < nextAIPlayerIndex m" "string_of_nat (nextAIPlayerIndex m) = string_of_nat k"
    by (auto simp: aiNames_def)
  then show False
    using string_of_nat_inj by blast
qed

lemma aiNames_Suc: "set (aiNames (Suc n)) = insert (''AI-'' @ string_of_nat n) (set (aiNames n))"
  by (auto simp: aiNames_def)

lemma wf_master_delete:
  assumes "wf_master m"
  shows "wf_master (m\<lparr>taskMap := AList.delete k (taskMap m)\<rparr>)"
proof -
  have "distinct (map fst (AList.delete k (taskMap m)))"
    using assms by (simp add: wf_master_def distinct_delete)
  moreover have "set (AList.delete k (taskMap m)) \<subseteq> set (taskMap m)"
    by (auto simp: AList.delete_eq)
  ultimately show ?thesis
    using assms by (auto simp: wf_master_def list_all_iff)
qed

lemma set_update_subset: "set (AList.update k v al) \<subseteq> insert (k, v) (set al)"
  by (induction al) auto

lemma wf_master_addAI:
  assumes "wf_master m"
  shows "wf_master (fst (addAI state pos newTankId m))"
proof (cases "remainingEnemies state = []")
  case True
  with assms show ?thesis by (simp add: addAI_def)
next
  case False
  let ?new = "''AI-'' @ string_of_nat (nextAIPlayerIndex m)"
  let ?al = "AList.update ?new (Task ?new) (taskMap m)"
  have m': "fst (addAI state pos newTankId m)
            = m\<lparr>nextAIPlayerIndex := Suc (nextAIPlayerIndex m), taskMap := ?al\<rparr>"
    using False by (simp add: addAI_def Let_def)
  have d: "distinct (map fst ?al)"
    using assms by (simp add: wf_master_def distinct_update)
  have "\<forall>e \<in> set ?al. fst e \<in> set (aiNames (Suc (nextAIPlayerIndex m))) \<and> snd e = Task (fst e)"
  proof
    fix e assume "e \<in> set ?al"
    with set_update_subset[of ?new "Task ?new" "taskMap m"]
    have "e = (?new, Task ?new) \<or> e \<in> set (taskMap m)" by auto
    with assms show "fst e \<in> set (aiNames (Suc (nextAIPlayerIndex m))) \<and> snd e = Task (fst e)"
      by (auto simp: wf_master_def list_all_iff aiNames_Suc)
  qed
  with d m' show ?thesis
    by (simp add: wf_master_def list_all_iff)
qed

lemma wf_master_cancelAll: "wf_master m \<Longrightarrow> wf_master (fst (cancelAll es m))"
proof (induction es arbitrary: m)
  case Nil
  then show ?case by simp
next
  case (Cons e es)
  from Cons.IH[OF wf_master_delete[OF Cons.prems, of "fst e"]] show ?case
    by (auto split: prod.splits)
qed

lemma wf_master_initial: "wf_master initial_master"
  by (simp add: wf_master_def initial_master_def)

lemma wf_master_step:
  assumes "wf_master m" "masterStep state pos newTankId m action = Inr (m', effs)"
  shows "wf_master m'"
proof (cases action)
  case (KILL tank player)
  show ?thesis
  proof (cases "side tank = AI")
    case True
    with assms(2) KILL obtain task where
      "map_of (taskMap m) (playerName player) = Some task"
      "m' = fst (addAI state pos newTankId (m\<lparr>taskMap := AList.delete (playerName player) (taskMap m)\<rparr>))"
      by (auto simp: masterStep_def split: option.splits prod.splits)
    with wf_master_addAI[OF wf_master_delete[OF assms(1)]] show ?thesis by simp
  next
    case False
    with assms KILL show ?thesis by (simp add: masterStep_def)
  qed
next
  case LOAD_STAGE
  with assms(2) have "m' = fst (addAI state pos newTankId m)"
    by (auto simp: masterStep_def)
  with wf_master_addAI[OF assms(1)] show ?thesis by simp
next
  case GAMEOVER
  with assms(2) have "m' = fst (cancelAll (taskMap m) m)"
    by (auto simp: masterStep_def)
  with wf_master_cancelAll[OF assms(1)] show ?thesis by simp
qed

text \<open>
  C7. On a \<^verbatim>\<open>KILL\<close> of a tank of side \<^verbatim>\<open>ai\<close> whose player has an entry in \<^verbatim>\<open>taskMap\<close>,
  the supervisor cancels that entry's task, deletes the entry and then runs \<^verbatim>\<open>addAI\<close>
  once. With no remaining enemies nothing else happens: the registry is the old one without
  the killed identity, one smaller. With remaining enemies a task is spawned for the fresh
  name \<open>new\<close> and registered under it (together with the player, the tank and the
  activation). When the invariant \<open>wf_master\<close> holds, which every step of the supervisor
  keeps, \<open>new\<close> was not registered before, so the killed identity is not registered
  afterwards and the registry has as many entries as before.
\<close>

theorem kill_ai_replaces:
  assumes "side tank = AI" and "map_of (taskMap m) (playerName player) = Some task"
    and "killed = playerName player" and "new = ''AI-'' @ string_of_nat (nextAIPlayerIndex m)"
  shows "masterStep state pos newTankId m (KILL tank player) =
           (case addAI state pos newTankId (m\<lparr>taskMap := AList.delete killed (taskMap m)\<rparr>) of
              (m', effs) \<Rightarrow> Inr (m', Cancel task # effs))
       \<and> (remainingEnemies state = [] \<longrightarrow>
            masterStep state pos newTankId m (KILL tank player) =
              Inr (m\<lparr>taskMap := AList.delete killed (taskMap m)\<rparr>, [Cancel task])
            \<and> registry (m\<lparr>taskMap := AList.delete killed (taskMap m)\<rparr>) = registry m - {killed}
            \<and> card (registry (m\<lparr>taskMap := AList.delete killed (taskMap m)\<rparr>)) = card (registry m) - 1
            \<and> 0 < card (registry m))
       \<and> (remainingEnemies state \<noteq> [] \<longrightarrow>
            masterStep state pos newTankId m (KILL tank player) =
              Inr (m\<lparr>nextAIPlayerIndex := Suc (nextAIPlayerIndex m),
                     taskMap := AList.update new (Task new) (AList.delete killed (taskMap m))\<rparr>,
                   [Cancel task,
                    Put (CREATE_PLAYER \<lparr>playerName = new, lives = \<infinity>, p_side = AI\<rparr>),
                    Put REMOVE_FIRST_REMAINING_ENEMY,
                    SpawnTank (fst pos) (snd pos) AI (hd (remainingEnemies state))
                      (if hd (remainingEnemies state) = Armor then 4 else 1),
                    Spawn (Task new),
                    Put (ACTIVATE_PLAYER new newTankId)])
            \<and> map_of (AList.update new (Task new) (AList.delete killed (taskMap m))) new = Some (Task new)
            \<and> registry (m\<lparr>nextAIPlayerIndex := Suc (nextAIPlayerIndex m),
                     taskMap := AList.update new (Task new) (AList.delete killed (taskMap m))\<rparr>)
                = insert new (registry m - {killed}))
       \<and> (wf_master m \<and> remainingEnemies state \<noteq> [] \<longrightarrow>
            new \<notin> registry m
            \<and> killed \<notin> registry (m\<lparr>nextAIPlayerIndex := Suc (nextAIPlayerIndex m),
                     taskMap := AList.update new (Task new) (AList.delete killed (taskMap m))\<rparr>)
            \<and> card (registry (m\<lparr>nextAIPlayerIndex := Suc (nextAIPlayerIndex m),
                     taskMap := AList.update new (Task new) (AList.delete killed (taskMap m))\<rparr>))
                = card (registry m))"
proof -
  let ?m1 = "m\<lparr>taskMap := AList.delete killed (taskMap m)\<rparr>"
  have step: "masterStep state pos newTankId m (KILL tank player) =
           (case addAI state pos newTankId ?m1 of (m', effs) \<Rightarrow> Inr (m', Cancel task # effs))"
    using assms by (simp add: masterStep_def)
  have inreg: "killed \<in> registry m"
    using assms(2,3) map_of_SomeD[of "taskMap m" killed task]
    by (simp add: registry_def) (metis fst_conv image_eqI)
  have fin: "finite (registry m)" by (simp add: registry_def)
  have reg1: "registry ?m1 = registry m - {killed}"
    by (rule registry_delete)
  have card1: "card (registry ?m1) = card (registry m) - 1" "0 < card (registry m)"
    using inreg fin by (auto simp: reg1 card_gt_0_iff)
  have empty: "remainingEnemies state = [] \<longrightarrow>
            masterStep state pos newTankId m (KILL tank player) = Inr (?m1, [Cancel task])
            \<and> registry ?m1 = registry m - {killed}
            \<and> card (registry ?m1) = card (registry m) - 1
            \<and> 0 < card (registry m)"
    using step reg1 card1 by (simp add: addAI_def)
  let ?m2 = "m\<lparr>nextAIPlayerIndex := Suc (nextAIPlayerIndex m),
                     taskMap := AList.update new (Task new) (AList.delete killed (taskMap m))\<rparr>"
  have add: "remainingEnemies state \<noteq> [] \<Longrightarrow> addAI state pos newTankId ?m1 =
      (?m2, [Put (CREATE_PLAYER \<lparr>playerName = new, lives = \<infinity>, p_side = AI\<rparr>),
                    Put REMOVE_FIRST_REMAINING_ENEMY,
                    SpawnTank (fst pos) (snd pos) AI (hd (remainingEnemies state))
                      (if hd (remainingEnemies state) = Armor then 4 else 1),
                    Spawn (Task new),
                    Put (ACTIVATE_PLAYER new newTankId)])"
    unfolding addAI_def Let_def assms(4) by simp
  have look: "map_of (AList.update new (Task new) (AList.delete killed (taskMap m))) new = Some (Task new)"
    by (simp add: update_conv')
  have "registry ?m2 = insert new (fst ` set (AList.delete killed (taskMap m)))"
    by (simp add: registry_def dom_update)
  also have "fst ` set (AList.delete killed (taskMap m)) = registry ?m1"
    by (simp add: registry_def)
  finally have reg2: "registry ?m2 = insert new (registry m - {killed})"
    by (simp only: reg1)
  have nonempty: "remainingEnemies state \<noteq> [] \<longrightarrow>
            masterStep state pos newTankId m (KILL tank player) =
              Inr (?m2,
                   [Cancel task,
                    Put (CREATE_PLAYER \<lparr>playerName = new, lives = \<infinity>, p_side = AI\<rparr>),
                    Put REMOVE_FIRST_REMAINING_ENEMY,
                    SpawnTank (fst pos) (snd pos) AI (hd (remainingEnemies state))
                      (if hd (remainingEnemies state) = Armor then 4 else 1),
                    Spawn (Task new),
                    Put (ACTIVATE_PLAYER new newTankId)])
            \<and> map_of (AList.update new (Task new) (AList.delete killed (taskMap m))) new = Some (Task new)
            \<and> registry ?m2 = insert new (registry m - {killed})"
    using step add look reg2 by simp
  have fresh: "wf_master m \<longrightarrow>
            new \<notin> registry m \<and> killed \<notin> registry ?m2 \<and> card (registry ?m2) = card (registry m)"
  proof
    assume "wf_master m"
    then have n: "new \<notin> registry m"
      unfolding assms(4) by (rule wf_master_fresh)
    with inreg have ne: "killed \<noteq> new" by auto
    have "card (insert new (registry m - {killed})) = Suc (card (registry m - {killed}))"
      using n fin by simp
    also have "\<dots> = card (registry m)"
      using fin inreg by (rule card_Suc_Diff1)
    finally have "card (registry ?m2) = card (registry m)"
      by (simp only: reg2)
    with n ne show "new \<notin> registry m \<and> killed \<notin> registry ?m2 \<and> card (registry ?m2) = card (registry m)"
      by (simp add: reg2)
  qed
  from step empty nonempty fresh show ?thesis by blast
qed

theorem kill_ai_replaces_witness:
  "masterStep storeA (16, 0) 9 masterA (killOf ''AI-0'')
     = Inr (\<lparr>taskMap = [(''AI-1'', Task ''AI-1''), (''AI-2'', Task ''AI-2'')], nextAIPlayerIndex = 3\<rparr>,
            [Cancel (Task ''AI-0''),
             Put (CREATE_PLAYER \<lparr>playerName = ''AI-2'', lives = \<infinity>, p_side = AI\<rparr>),
             Put REMOVE_FIRST_REMAINING_ENEMY,
             SpawnTank 16 0 AI Basic 1,
             Spawn (Task ''AI-2''),
             Put (ACTIVATE_PLAYER ''AI-2'' 9)])
   \<and> masterStep emptyStore (16, 0) 9 masterA (killOf ''AI-0'')
     = Inr (\<lparr>taskMap = [(''AI-1'', Task ''AI-1'')], nextAIPlayerIndex = 2\<rparr>, [Cancel (Task ''AI-0'')])
   \<and> wf_master masterA
   \<and> ''AI-0'' \<notin> registry \<lparr>taskMap = [(''AI-1'', Task ''AI-1''), (''AI-2'', Task ''AI-2'')], nextAIPlayerIndex = 3\<rparr>"
proof -
  have h: "side tankA = AI"
    "map_of (taskMap masterA) (playerName \<lparr>playerName = ''AI-0'', lives = \<infinity>, p_side = AI\<rparr>)
       = Some (Task ''AI-0'')"
    "''AI-0'' = playerName \<lparr>playerName = ''AI-0'', lives = \<infinity>, p_side = AI\<rparr>"
    "''AI-2'' = ''AI-'' @ string_of_nat (nextAIPlayerIndex masterA)"
    by (simp_all add: tankA_def masterA_def string_of_nat_small)
  have e: "remainingEnemies storeA \<noteq> []" "remainingEnemies emptyStore = []"
    "hd (remainingEnemies storeA) = Basic"
    by (simp_all add: storeA_def emptyStore_def)
  from kill_ai_replaces[OF h, of storeA "(16, 0)" 9, THEN conjunct2, THEN conjunct2] e
  have a: "masterStep storeA (16, 0) 9 masterA (killOf ''AI-0'')
     = Inr (\<lparr>taskMap = [(''AI-1'', Task ''AI-1''), (''AI-2'', Task ''AI-2'')], nextAIPlayerIndex = 3\<rparr>,
            [Cancel (Task ''AI-0''),
             Put (CREATE_PLAYER \<lparr>playerName = ''AI-2'', lives = \<infinity>, p_side = AI\<rparr>),
             Put REMOVE_FIRST_REMAINING_ENEMY,
             SpawnTank 16 0 AI Basic 1,
             Spawn (Task ''AI-2''),
             Put (ACTIVATE_PLAYER ''AI-2'' 9)])"
    by (simp add: killOf_def masterA_def)
  from kill_ai_replaces[OF h, of emptyStore "(16, 0)" 9, THEN conjunct2, THEN conjunct1] e
  have b: "masterStep emptyStore (16, 0) 9 masterA (killOf ''AI-0'')
     = Inr (\<lparr>taskMap = [(''AI-1'', Task ''AI-1'')], nextAIPlayerIndex = 2\<rparr>, [Cancel (Task ''AI-0'')])"
    by (simp add: killOf_def masterA_def)
  have "aiNames 2 = [''AI-0'', ''AI-1'']"
    by (simp add: aiNames_def numeral_2_eq_2 string_of_nat.simps digit_char_def)
  then have w: "wf_master masterA"
    by (simp add: wf_master_def masterA_def)
  from kill_ai_replaces[OF h, of storeA "(16, 0)" 9, THEN conjunct2, THEN conjunct2, THEN conjunct2] e w
  have c: "''AI-0'' \<notin> registry \<lparr>taskMap = [(''AI-1'', Task ''AI-1''), (''AI-2'', Task ''AI-2'')], nextAIPlayerIndex = 3\<rparr>"
    by (simp add: masterA_def)
  from a b w c show ?thesis by simp
qed

end
